theory Spec2Isabelle
  imports Main
begin

section \<open>Values shared by the runtime controller and the application\<close>

text \<open>
  A thrown JavaScript value. Every throw site of \<^verbatim>\<open>main.js\<close> throws an
  \<^verbatim>\<open>Error\<close> built from a message; collaborators throw values of the same shape.
\<close>

datatype exn = Error string

text \<open>The fixed-shape record of boolean gates, \<^verbatim>\<open>runtimeState.decisions\<close>.\<close>

record Decisions =
  allowAnimations :: bool
  allowHeavy :: bool
  allowWebGL :: bool

text \<open>
  Modelled from the spec: the raw environment signals kept in the state for diagnostics
  (\<^verbatim>\<open>main.js\<close> never reads them). Each one is optional: a host that lacks the API
  yields \<open>None\<close>. Device memory is counted in whole gigabytes.
\<close>

record Signals =
  deviceMemory :: "nat option"
  hardwareConcurrency :: "nat option"
  networkClass :: "string option"
  reducedMotion :: "bool option"
  viewportWidth :: "nat option"

text \<open>
  The snapshot \<^verbatim>\<open>runtime.getState()\<close> returns; \<^verbatim>\<open>main.js\<close> reads its \<open>score\<close>
  and its \<open>decisions\<close>.
\<close>

record CapabilityState =
  score :: nat
  decisions :: Decisions
  signals :: Signals

section \<open>The capability detector (\<^verbatim>\<open>runtime-controller.js\<close>)\<close>

text \<open>
  Modelled from the spec: the tuning constants of \<^verbatim>\<open>runtime-controller.js\<close>, which is
  not among the sources. The point weights, the substitutes for unreadable signals, the
  bound of the score and the two cut points are left open by the spec; they are
  parameters here.
\<close>

record Policy =
  memoryPoints :: "nat \<Rightarrow> nat"
  coresPoints :: "nat \<Rightarrow> nat"
  networkPoints :: "string \<Rightarrow> nat"
  viewportPoints :: "nat \<Rightarrow> nat"
  defaultMemory :: nat
  defaultCores :: nat
  defaultNetwork :: string
  defaultViewport :: nat
  maxScore :: nat
  lowCut :: nat
  highCut :: nat

text \<open>
  Modelled from the spec: an unreadable signal is replaced by its default and scoring
  goes on.
\<close>

definition orDefault :: "'a option \<Rightarrow> 'a \<Rightarrow> 'a" where
  "orDefault v d = (case v of None \<Rightarrow> d | Some x \<Rightarrow> x)"

text \<open>
  Modelled from the spec: the scoring of \<^verbatim>\<open>runtime-controller.js\<close>, which is not among
  the sources. Each signal (or its default when unreadable) earns points, the points are
  summed and the sum is kept inside the bounded range.
\<close>

definition sumScore :: "Policy \<Rightarrow> Signals \<Rightarrow> nat" where
  "sumScore p sg =
     min (maxScore p)
       (memoryPoints p (orDefault (deviceMemory sg) (defaultMemory p))
        + coresPoints p (orDefault (hardwareConcurrency sg) (defaultCores p))
        + networkPoints p (orDefault (networkClass sg) (defaultNetwork p))
        + viewportPoints p (orDefault (viewportWidth sg) (defaultViewport p)))"

text \<open>
  Modelled from the spec: the thresholding of the score. \<open>allowAnimations\<close> is decided by
  the low cut point, \<open>allowHeavy\<close> and \<open>allowWebGL\<close> by the high one.
\<close>

definition gates :: "Policy \<Rightarrow> nat \<Rightarrow> Decisions" where
  "gates p s =
     \<lparr>allowAnimations = (lowCut p \<le> s), allowHeavy = (highCut p \<le> s),
      allowWebGL = (highCut p \<le> s)\<rparr>"

text \<open>Modelled from the spec: every gate at its most conservative value.\<close>

definition disallowAll :: Decisions where
  "disallowAll = \<lparr>allowAnimations = False, allowHeavy = False, allowWebGL = False\<rparr>"

text \<open>
  Modelled from the spec: the computation of the \<open>CapabilityState\<close> by
  \<^verbatim>\<open>runtime-controller.js\<close>, which is not among the sources. The reduced-motion
  preference is looked at first; when it is requested no signal is scored and every gate
  is disallowed. Otherwise the summed score is thresholded.
\<close>

definition detect :: "Policy \<Rightarrow> Signals \<Rightarrow> CapabilityState" where
  "detect p sg =
     (if reducedMotion sg = Some True
      then \<lparr>score = 0, decisions = disallowAll, signals = sg\<rparr>
      else \<lparr>score = sumScore p sg, decisions = gates p (sumScore p sg), signals = sg\<rparr>)"

text \<open>
  Modelled from the spec: the controller object that \<^verbatim>\<open>runtime-controller.js\<close> exports
  as \<^verbatim>\<open>runtime\<close>. It holds the snapshot computed when the module is loaded.
\<close>

record RuntimeController =
  current :: CapabilityState

text \<open>
  Modelled from the spec: construction of the \<^verbatim>\<open>runtime\<close> singleton of
  \<^verbatim>\<open>runtime-controller.js\<close> at module load.
\<close>

definition loadRuntime :: "Policy \<Rightarrow> Signals \<Rightarrow> RuntimeController" where
  "loadRuntime p sg = \<lparr>current = detect p sg\<rparr>"

text \<open>
  Modelled from the spec: \<^verbatim>\<open>runtime.getState()\<close> of \<^verbatim>\<open>runtime-controller.js\<close>.
  It hands out the snapshot and leaves the controller as it was. The result is a sum so
  that it can stand where \<^verbatim>\<open>main.js\<close> calls a collaborator that might throw.
\<close>

definition getState :: "RuntimeController \<Rightarrow> (exn + CapabilityState) \<times> RuntimeController" where
  "getState rc = (Inr (current rc), rc)"

text \<open>
  Modelled from the spec: the decisions record as the JavaScript object it is, a table
  from property names to values, and the names of its gates.
\<close>

definition gateTable :: "Decisions \<Rightarrow> (string \<times> bool) list" where
  "gateTable d =
     [(''allowAnimations'', allowAnimations d),
      (''allowHeavy'', allowHeavy d),
      (''allowWebGL'', allowWebGL d)]"

definition gateNames :: "string list" where
  "gateNames = map fst (gateTable disallowAll)"

text \<open>
  Modelled from the spec: \<^verbatim>\<open>runtime.isAllowed(gateName)\<close> of
  \<^verbatim>\<open>runtime-controller.js\<close>. The gate name is looked up in the decisions of the current
  state; a name that is not found is answered with \<open>false\<close>. The result is a sum so that
  it can stand where \<^verbatim>\<open>main.js\<close> calls a collaborator that might throw.
\<close>

definition isAllowed :: "RuntimeController \<Rightarrow> string \<Rightarrow> exn + bool" where
  "isAllowed rc gateName =
     (case map_of (gateTable (decisions (current rc))) gateName of
        Some allowed \<Rightarrow> Inr allowed
      | None \<Rightarrow> Inr False)"

section \<open>The application (\<^verbatim>\<open>main.js\<close>)\<close>

subsection \<open>Host and collaborators\<close>

datatype readyState = Loading | Interactive | Complete

text \<open>
  A library global that another script may have injected on \<^verbatim>\<open>window\<close>: absent,
  present, or an accessor whose read raises.
\<close>

datatype 'a global = Undefined | Defined 'a | Raises exn

text \<open>The call sites of the GSAP library in \<^verbatim>\<open>loadGSAPAnimations\<close> and in its callback.\<close>

datatype gsap_call =
    Timeline
  | From string
  | EventCallback string
  | To string

text \<open>
  The result object of \<^verbatim>\<open>renderAllProducts\<close>. \<open>total_count\<close> is its field
  \<^verbatim>\<open>total\<close>; \<open>error\<close> is an optional field.
\<close>

record RenderResult =
  success :: bool
  successful :: nat
  total_count :: nat
  error :: "string option"

type_synonym product = string

text \<open>
  Everything \<^verbatim>\<open>main.js\<close> reads from outside itself: the document, the window, and
  the imported collaborators. A collaborator call either returns (\<open>Inr\<close>) or throws
  (\<open>Inl\<close>); a GSAP call site maps to the exception it raises, if any.
  \<open>doc_DOMContentLoaded\<close> tells whether the host ever dispatches that event to a listener
  registered while the document is loading; \<open>doc_buttons\<close> are the elements matched by
  \<^verbatim>\<open>.buy-btn, .cart-btn\<close>. Reads of \<^verbatim>\<open>document\<close>, \<^verbatim>\<open>console\<close> and
  \<^verbatim>\<open>window.innerWidth\<close> do not throw.
\<close>

record env =
  doc_readyState :: readyState
  doc_DOMContentLoaded :: bool
  doc_buttons :: "string list"
  win_gsap :: "(gsap_call \<Rightarrow> exn option) global"
  win_THREE :: "unit global"
  win_innerWidth :: nat
  rt_getState :: "exn + CapabilityState"
  rt_isAllowed :: "string \<Rightarrow> exn + bool"
  data_getAllProducts :: "exn + product list"
  adapter_renderAllProducts :: "product list \<Rightarrow> exn + RenderResult"

subsection \<open>Effects\<close>

text \<open>
  What a run leaves behind is recorded as a sequence of events: the methods of \<^verbatim>\<open>App\<close>
  that were entered, the console lines (by their fixed text, without the emoji prefix and
  the values printed after it), the reports received by the error collaborator, the
  library calls that returned, the listeners registered, and the result object that
  \<^verbatim>\<open>renderAllProducts\<close> returned.
\<close>

datatype app_method =
    WaitForDOM
  | InitializeAnimations
  | LoadGSAPAnimations
  | SetupMouseInteractions
  | SetupButtonInteractions
  | InitializeWebGL
  | InitializeScroll
  | ShowFallbackUI

datatype event =
    ConsoleLog string
  | ConsoleWarn string
  | ConsoleError exn
  | Enter app_method
  | Report exn string
  | Gsap gsap_call
  | AddEventListener string string
  | RenderReturned RenderResult

text \<open>
  The content of \<^verbatim>\<open>document.body\<close>: the page as served and rendered, or the
  fallback panel of \<^verbatim>\<open>showFallbackUI\<close> (lines 251-281).
\<close>

datatype markup = PageMarkup | FallbackHTML

text \<open>
  The mutable state the application touches: its own \<open>initialized\<close> flag, the markup of
  \<^verbatim>\<open>document.body\<close>, and the sequence of observable effects so far.
\<close>

record world =
  initialized :: bool
  innerHTML :: markup
  trace :: "event list"

text \<open>
  How a piece of code ends: normally, by throwing, or suspended at an \<^verbatim>\<open>await\<close>
  whose promise never settles.
\<close>

datatype completion = Normal | Throw exn | Suspended

type_synonym step = "world \<Rightarrow> completion \<times> world"

definition emit :: "event \<Rightarrow> world \<Rightarrow> world" where
  "emit ev w = w\<lparr>trace := trace w @ [ev]\<rparr>"

definition does :: "event \<Rightarrow> step" where
  "does ev w = (Normal, emit ev w)"

definition skip :: step where
  "skip w = (Normal, w)"

definition throw :: "exn \<Rightarrow> step" where
  "throw e w = (Throw e, w)"

text \<open>Statements in sequence: the first one that does not end normally ends the block.\<close>

fun run :: "step list \<Rightarrow> step" where
  "run [] w = (Normal, w)"
| "run (s # ss) w =
     (case s w of
        (Normal, w') \<Rightarrow> run ss w'
      | (Throw e, w') \<Rightarrow> (Throw e, w')
      | (Suspended, w') \<Rightarrow> (Suspended, w'))"

text \<open>A call whose value is used by the rest of the block.\<close>

definition call :: "exn + 'a \<Rightarrow> ('a \<Rightarrow> step) \<Rightarrow> step" where
  "call r k w = (case r of Inl e \<Rightarrow> (Throw e, w) | Inr v \<Rightarrow> k v w)"

text \<open>\<^verbatim>\<open>try { body } catch (error) { handler }\<close>.\<close>

definition try_catch :: "step \<Rightarrow> (exn \<Rightarrow> step) \<Rightarrow> step" where
  "try_catch body handler w =
     (case body w of
        (Normal, w') \<Rightarrow> (Normal, w')
      | (Throw e, w') \<Rightarrow> handler e w'
      | (Suspended, w') \<Rightarrow> (Suspended, w'))"

text \<open>
  Modelled from the spec: \<^verbatim>\<open>errorHandler.report(error, { phase })\<close> of
  \<^verbatim>\<open>error-handler.js\<close>, which is not among the sources: a fire-and-forget call that
  receives the report and returns.
\<close>

definition report :: "exn \<Rightarrow> string \<Rightarrow> step" where
  "report e phase = does (Report e phase)"

text \<open>The exceptions reported under a phase tag, in order.\<close>

fun reported :: "string \<Rightarrow> event list \<Rightarrow> exn list" where
  "reported phase [] = []"
| "reported phase (Report e ph # evs) =
     (if ph = phase then e # reported phase evs else reported phase evs)"
| "reported phase (_ # evs) = reported phase evs"

subsection \<open>The methods of \<^verbatim>\<open>App\<close>\<close>

definition constructor :: world where
  "constructor = \<lparr>initialized = False, innerHTML = PageMarkup, trace = []\<rparr>"

definition waitForDOM :: "env \<Rightarrow> step" where
  "waitForDOM en w =
     (let w1 = emit (Enter WaitForDOM) w in
      if doc_readyState en = Complete \<or> doc_readyState en = Interactive
      then (Normal, w1)
      else (if doc_DOMContentLoaded en then Normal else Suspended,
            emit (AddEventListener ''document'' ''DOMContentLoaded'') w1))"

text \<open>A call of a GSAP function through \<^verbatim>\<open>window.gsap\<close>.\<close>

definition gsap :: "env \<Rightarrow> gsap_call \<Rightarrow> step" where
  "gsap en c w =
     (case win_gsap en of
        Undefined \<Rightarrow> (Throw (Error ''TypeError''), w)
      | Raises e \<Rightarrow> (Throw e, w)
      | Defined lib \<Rightarrow>
          (case lib c of
             Some e \<Rightarrow> (Throw e, w)
           | None \<Rightarrow> (Normal, emit (Gsap c) w)))"

definition setupMouseInteractions :: step where
  "setupMouseInteractions =
     run [does (Enter SetupMouseInteractions),
          does (AddEventListener ''document'' ''mousemove''),
          does (AddEventListener ''document'' ''mouseleave'')]"

definition buttonListeners :: "string \<Rightarrow> step list" where
  "buttonListeners btn =
     [does (AddEventListener btn ''mouseenter''),
      does (AddEventListener btn ''mouseleave''),
      does (AddEventListener btn ''mousedown''),
      does (AddEventListener btn ''mouseup'')]"

definition setupButtonInteractions :: "env \<Rightarrow> step" where
  "setupButtonInteractions en =
     run (does (Enter SetupButtonInteractions) # concat (map buttonListeners (doc_buttons en)))"

text \<open>
  The arrow function registered for \<^verbatim>\<open>onComplete\<close> of the intro timeline (lines
  142-152); the library calls it when the timeline has played.
\<close>

definition introTL_onComplete :: "env \<Rightarrow> step" where
  "introTL_onComplete en =
     call (rt_isAllowed en ''allowHeavy'')
       (\<lambda>allowed. if allowed then gsap en (To ''.main-img'') else skip)"

definition loadGSAPAnimations :: "env \<Rightarrow> step" where
  "loadGSAPAnimations en =
     run [does (Enter LoadGSAPAnimations),
          gsap en Timeline,
          gsap en (From ''.product-section''),
          gsap en (From ''.info h2''),
          gsap en (From ''.info p, .mini-label, .specs-row, .buy-btn''),
          gsap en (From ''.main-img''),
          gsap en (EventCallback ''onComplete''),
          (if 1024 < win_innerWidth en
           then call (rt_isAllowed en ''allowHeavy'')
                  (\<lambda>allowed. if allowed then setupMouseInteractions else skip)
           else skip),
          setupButtonInteractions en]"

text \<open>The \<^verbatim>\<open>typeof window.X !== 'undefined'\<close> test on a library global.\<close>

definition isDefined :: "'a global \<Rightarrow> (bool \<Rightarrow> step) \<Rightarrow> step" where
  "isDefined g k =
     call (case g of Undefined \<Rightarrow> Inr False | Defined _ \<Rightarrow> Inr True | Raises e \<Rightarrow> Inl e) k"

definition animations_try :: "env \<Rightarrow> step" where
  "animations_try en =
     isDefined (win_gsap en)
       (\<lambda>present. if present
          then run [loadGSAPAnimations en, does (ConsoleLog ''Animations enabled'')]
          else does (ConsoleWarn ''GSAP not available - animations disabled''))"

definition initializeAnimations :: "env \<Rightarrow> step" where
  "initializeAnimations en =
     run [does (Enter InitializeAnimations),
          try_catch (animations_try en) (\<lambda>err. report err ''animations'')]"

definition webgl_try :: "env \<Rightarrow> step" where
  "webgl_try en =
     isDefined (win_THREE en)
       (\<lambda>present. if present
          then does (ConsoleLog ''WebGL available'')
          else does (ConsoleWarn ''Three.js not available - WebGL disabled''))"

definition initializeWebGL :: "env \<Rightarrow> step" where
  "initializeWebGL en =
     run [does (Enter InitializeWebGL),
          try_catch (webgl_try en) (\<lambda>err. report err ''webgl'')]"

definition initializeScroll :: step where
  "initializeScroll =
     run [does (Enter InitializeScroll), does (ConsoleLog ''Scroll initialized'')]"

definition showFallbackUI :: "exn \<Rightarrow> step" where
  "showFallbackUI err w = (Normal, (emit (Enter ShowFallbackUI) w)\<lparr>innerHTML := FallbackHTML\<rparr>)"

definition errorMessage :: "string option \<Rightarrow> string" where
  "errorMessage m = (case m of None \<Rightarrow> [] | Some s \<Rightarrow> s)"

definition setInitialized :: step where
  "setInitialized w = (Normal, w\<lparr>initialized := True\<rparr>)"

text \<open>The \<^verbatim>\<open>try\<close> block of \<^verbatim>\<open>init\<close> (lines 25-68).\<close>

definition init_try :: "env \<Rightarrow> step" where
  "init_try en =
     run [does (ConsoleLog ''Lumina Headphones - Initializing...''),
          waitForDOM en,
          call (rt_getState en) (\<lambda>runtimeState.
            run [does (ConsoleLog ''Runtime Score''),
                 does (ConsoleLog ''Performance decisions''),
                 call (data_getAllProducts en) (\<lambda>productData.
                   call (adapter_renderAllProducts en productData) (\<lambda>renderResult.
                     run [does (RenderReturned renderResult),
                          (if \<not> success renderResult
                           then throw (Error (errorMessage (error renderResult)))
                           else skip),
                          does (ConsoleLog ''Products rendered''),
                          (if allowAnimations (decisions runtimeState)
                           then initializeAnimations en else skip),
                          (if allowWebGL (decisions runtimeState)
                           then initializeWebGL en else skip),
                          initializeScroll,
                          setInitialized,
                          does (ConsoleLog ''Application initialized successfully'')]))])]"

text \<open>The \<^verbatim>\<open>catch\<close> block of \<^verbatim>\<open>init\<close> (lines 69-73).\<close>

definition init_catch :: "exn \<Rightarrow> step" where
  "init_catch err =
     run [does (ConsoleError err),
          report err ''initialization'',
          showFallbackUI err]"

text \<open>
  \<^verbatim>\<open>async init()\<close>. The completion is the fate of the returned promise: \<open>Normal\<close> is
  fulfilled, \<open>Throw\<close> is rejected, \<open>Suspended\<close> is pending for ever.
\<close>

definition init :: "env \<Rightarrow> step" where
  "init en = try_catch (init_try en) init_catch"

text \<open>
  The events a step appends to the trace of the state it is started in.
\<close>

definition effects :: "step \<Rightarrow> world \<Rightarrow> event list" where
  "effects s w = drop (length (trace w)) (trace (snd (s w)))"

section \<open>Sample policy, signals and hosts\<close>

text \<open>
  A concrete tuning of the detector and a few concrete hosts, on which the model is run.
  The theorems below hold for every policy and every host; these values only show them at
  work.
\<close>

definition samplePolicy :: Policy where
  "samplePolicy =
     \<lparr>memoryPoints = (\<lambda>m. if 8 \<le> m then 30 else if 4 \<le> m then 20 else 10),
      coresPoints = (\<lambda>c. if 8 \<le> c then 30 else if 4 \<le> c then 20 else 10),
      networkPoints = (\<lambda>n. if n = ''4g'' then 30 else if n = ''3g'' then 15 else 0),
      viewportPoints = (\<lambda>v. if 1024 < v then 10 else 0),
      defaultMemory = 4, defaultCores = 4, defaultNetwork = ''4g'', defaultViewport = 1024,
      maxScore = 100, lowCut = 40, highCut = 70\<rparr>"

definition strongSignals :: Signals where
  "strongSignals =
     \<lparr>deviceMemory = Some 8, hardwareConcurrency = Some 8, networkClass = Some ''4g'',
      reducedMotion = Some False, viewportWidth = Some 1440\<rparr>"

definition calmSignals :: Signals where
  "calmSignals = strongSignals\<lparr>reducedMotion := Some True\<rparr>"

definition failedResult :: RenderResult where
  "failedResult =
     \<lparr>success = False, successful = 0, total_count = 5, error = Some ''Container not found''\<rparr>"

definition desktopHost :: env where
  "desktopHost =
     \<lparr>doc_readyState = Interactive, doc_DOMContentLoaded = True,
      doc_buttons = [''buy-btn-1''],
      win_gsap = Defined (\<lambda>c. None), win_THREE = Defined (),
      win_innerWidth = 1440,
      rt_getState = fst (getState (loadRuntime samplePolicy strongSignals)),
      rt_isAllowed = isAllowed (loadRuntime samplePolicy strongSignals),
      data_getAllProducts = Inr [''Matte Black'', ''Royal Gold''],
      adapter_renderAllProducts =
        (\<lambda>ps. Inr \<lparr>success = True, successful = length ps, total_count = length ps,
                    error = None\<rparr>)\<rparr>"

definition failedRenderHost :: env where
  "failedRenderHost = desktopHost\<lparr>adapter_renderAllProducts := (\<lambda>ps. Inr failedResult)\<rparr>"

definition brokenLibrariesHost :: env where
  "brokenLibrariesHost =
     desktopHost\<lparr>win_gsap := Defined (\<lambda>c. if c = Timeline
                                then Some (Error ''gsap.timeline is not a function'') else None),
                 win_THREE := Raises (Error ''THREE getter failed'')\<rparr>"

definition noRuntimeHost :: env where
  "noRuntimeHost = desktopHost\<lparr>rt_getState := Inl (Error ''matchMedia is not a function'')\<rparr>"

definition noGsapHost :: env where
  "noGsapHost = desktopHost\<lparr>win_gsap := Undefined\<rparr>"

definition midSignals :: Signals where
  "midSignals =
     \<lparr>deviceMemory = Some 4, hardwareConcurrency = Some 4, networkClass = Some ''3g'',
      reducedMotion = None, viewportWidth = Some 800\<rparr>"

section \<open>Vocabulary of the proofs\<close>

text \<open>
  No statement of the activation paths reads the state it runs in: each one ends the same
  way and appends the same events whatever the state. \<open>effect_of\<close> says so for one step;
  \<open>uniform P\<close> adds that the step does not suspend and that its events satisfy \<open>P\<close>.
\<close>

definition effect_of :: "step \<Rightarrow> completion \<Rightarrow> event list \<Rightarrow> bool" where
  "effect_of s c evs \<longleftrightarrow> (\<forall>w. s w = (c, w\<lparr>trace := trace w @ evs\<rparr>))"

definition uniform :: "(event \<Rightarrow> bool) \<Rightarrow> step \<Rightarrow> bool" where
  "uniform P s \<longleftrightarrow> (\<exists>c evs. c \<noteq> Suspended \<and> list_all P evs \<and> effect_of s c evs)"

text \<open>
  The events a \<^verbatim>\<open>try\<close> block of an activation path can leave behind: console lines,
  library calls, listener registrations and the entry of the set-up methods.
\<close>

fun setup_event :: "event \<Rightarrow> bool" where
  "setup_event (ConsoleLog _) = True"
| "setup_event (ConsoleWarn _) = True"
| "setup_event (Gsap _) = True"
| "setup_event (AddEventListener _ _) = True"
| "setup_event (Enter m) =
     (m = LoadGSAPAnimations \<or> m = SetupMouseInteractions \<or> m = SetupButtonInteractions)"
| "setup_event _ = False"

text \<open>
  The events of \<^verbatim>\<open>init\<close> up to the end of the wait for the document, and the hosts
  on which that wait ends.
\<close>

definition dom_events :: "env \<Rightarrow> event list" where
  "dom_events en =
     [ConsoleLog ''Lumina Headphones - Initializing...'', Enter WaitForDOM]
     @ (if doc_readyState en = Complete \<or> doc_readyState en = Interactive then []
        else [AddEventListener ''document'' ''DOMContentLoaded''])"

definition dom_ready :: "env \<Rightarrow> bool" where
  "dom_ready en \<longleftrightarrow>
     doc_readyState en = Complete \<or> doc_readyState en = Interactive \<or> doc_DOMContentLoaded en"

section \<open>Steps compose\<close>

lemma effect_does: "effect_of (does ev) Normal [ev]"
  by (simp add: effect_of_def does_def emit_def)

lemma effect_skip: "effect_of skip Normal []"
  by (simp add: effect_of_def skip_def)

lemma effect_throw: "effect_of (throw e) (Throw e) []"
  by (simp add: effect_of_def throw_def)

lemma effect_run_Nil: "effect_of (run []) Normal []"
  by (simp add: effect_of_def)

lemma effect_run_Normal:
  "effect_of s Normal evs \<Longrightarrow> effect_of (run ss) c evs' \<Longrightarrow> effect_of (run (s # ss)) c (evs @ evs')"
  by (simp add: effect_of_def)

lemma effect_run_Throw:
  "effect_of s (Throw e) evs \<Longrightarrow> effect_of (run (s # ss)) (Throw e) evs"
  by (simp add: effect_of_def)

lemma uniform_does: "P ev \<Longrightarrow> uniform P (does ev)"
  unfolding uniform_def using effect_does [of ev] by (intro exI [of _ Normal] exI [of _ "[ev]"]) simp

lemma uniform_skip: "uniform P skip"
  unfolding uniform_def using effect_skip by (intro exI [of _ Normal] exI [of _ "[]"]) simp

lemma uniform_throw: "uniform P (throw e)"
  unfolding uniform_def using effect_throw [of e]
  by (intro exI [of _ "Throw e"] exI [of _ "[]"]) simp

lemma uniform_run: "(\<And>s. s \<in> set ss \<Longrightarrow> uniform P s) \<Longrightarrow> uniform P (run ss)"
proof (induction ss)
  case Nil
  show ?case unfolding uniform_def using effect_run_Nil
    by (intro exI [of _ Normal] exI [of _ "[]"]) simp
next
  case (Cons s ss)
  from Cons.prems have "uniform P s" by simp
  then obtain c evs where s: "c \<noteq> Suspended" "list_all P evs" "effect_of s c evs"
    unfolding uniform_def by blast
  from Cons have "uniform P (run ss)" by simp
  then obtain c' evs' where r: "c' \<noteq> Suspended" "list_all P evs'" "effect_of (run ss) c' evs'"
    unfolding uniform_def by blast
  show ?case
  proof (cases c)
    case Normal
    with s r have "effect_of (run (s # ss)) c' (evs @ evs')" by (simp add: effect_run_Normal)
    with s r show ?thesis unfolding uniform_def
      by (intro exI [of _ c'] exI [of _ "evs @ evs'"]) simp
  next
    case (Throw e)
    with s have "effect_of (run (s # ss)) (Throw e) evs" by (simp add: effect_run_Throw)
    with s show ?thesis unfolding uniform_def
      by (intro exI [of _ "Throw e"] exI [of _ evs]) simp
  next
    case Suspended
    with s show ?thesis by simp
  qed
qed

lemma uniform_call: "(\<And>v. uniform P (k v)) \<Longrightarrow> uniform P (call r k)"
proof (cases r)
  case (Inl e)
  then have "effect_of (call r k) (Throw e) []" by (simp add: effect_of_def call_def)
  then show ?thesis unfolding uniform_def
    by (intro exI [of _ "Throw e"] exI [of _ "[]"]) simp
next
  case (Inr v)
  assume "\<And>v. uniform P (k v)"
  then have "uniform P (k v)" .
  moreover from Inr have "call r k = k v" by (intro ext) (simp add: call_def)
  ultimately show ?thesis by simp
qed

lemma uniform_try_catch:
  assumes "uniform P body" and "\<And>e. uniform P (handler e)"
  shows "uniform P (try_catch body handler)"
proof -
  from assms(1) obtain c evs where b: "c \<noteq> Suspended" "list_all P evs" "effect_of body c evs"
    unfolding uniform_def by blast
  show ?thesis
  proof (cases c)
    case Normal
    with b have "effect_of (try_catch body handler) Normal evs"
      by (simp add: effect_of_def try_catch_def)
    with b show ?thesis unfolding uniform_def
      by (intro exI [of _ Normal] exI [of _ evs]) simp
  next
    case (Throw e)
    from assms(2) obtain c' evs' where h: "c' \<noteq> Suspended" "list_all P evs'" "effect_of (handler e) c' evs'"
      unfolding uniform_def by blast
    with b Throw have "effect_of (try_catch body handler) c' (evs @ evs')"
      by (simp add: effect_of_def try_catch_def)
    with b h show ?thesis unfolding uniform_def
      by (intro exI [of _ c'] exI [of _ "evs @ evs'"]) simp
  next
    case Suspended
    with b show ?thesis by simp
  qed
qed

lemma uniform_gsap: "P (Gsap c) \<Longrightarrow> uniform P (gsap en c)"
proof (cases "win_gsap en")
  case Undefined
  then have "effect_of (gsap en c) (Throw (Error ''TypeError'')) []"
    by (simp add: effect_of_def gsap_def)
  then show ?thesis unfolding uniform_def
    by (intro exI [of _ "Throw (Error ''TypeError'')"] exI [of _ "[]"]) simp
next
  case (Raises e)
  then have "effect_of (gsap en c) (Throw e) []"
    by (simp add: effect_of_def gsap_def)
  then show ?thesis unfolding uniform_def
    by (intro exI [of _ "Throw e"] exI [of _ "[]"]) simp
next
  case (Defined lib)
  assume P: "P (Gsap c)"
  show ?thesis
  proof (cases "lib c")
    case None
    with Defined have "effect_of (gsap en c) Normal [Gsap c]"
      by (simp add: effect_of_def gsap_def emit_def)
    with P show ?thesis unfolding uniform_def
      by (intro exI [of _ Normal] exI [of _ "[Gsap c]"]) simp
  next
    case (Some e)
    with Defined have "effect_of (gsap en c) (Throw e) []"
      by (simp add: effect_of_def gsap_def)
    then show ?thesis unfolding uniform_def
      by (intro exI [of _ "Throw e"] exI [of _ "[]"]) simp
  qed
qed

section \<open>The activation paths\<close>

lemma uniform_isDefined: "(\<And>b. uniform P (k b)) \<Longrightarrow> uniform P (isDefined g k)"
  unfolding isDefined_def by (rule uniform_call)

lemma uniform_setupMouseInteractions: "uniform setup_event setupMouseInteractions"
  unfolding setupMouseInteractions_def by (rule uniform_run) (auto intro: uniform_does)

lemma uniform_setupButtonInteractions: "uniform setup_event (setupButtonInteractions en)"
  unfolding setupButtonInteractions_def
  by (rule uniform_run) (auto simp: buttonListeners_def intro: uniform_does)

lemma uniform_loadGSAPAnimations: "uniform setup_event (loadGSAPAnimations en)"
  unfolding loadGSAPAnimations_def
  by (rule uniform_run)
     (auto intro!: uniform_does uniform_gsap uniform_call uniform_skip
        uniform_setupMouseInteractions uniform_setupButtonInteractions)

lemma uniform_animations_try: "uniform setup_event (animations_try en)"
  unfolding animations_try_def
  by (rule uniform_isDefined)
     (auto intro!: uniform_run uniform_does uniform_loadGSAPAnimations)

lemma uniform_webgl_try: "uniform setup_event (webgl_try en)"
  unfolding webgl_try_def
  by (rule uniform_isDefined) (auto intro!: uniform_does)

lemma guarded_effect:
  assumes "uniform P body"
  obtains evs where "list_all P evs" "effect_of body Normal evs"
      "effect_of (run [does ev, try_catch body (\<lambda>err. report err phase)]) Normal (ev # evs)"
    | e evs where "list_all P evs" "effect_of body (Throw e) evs"
      "effect_of (run [does ev, try_catch body (\<lambda>err. report err phase)]) Normal
         (ev # evs @ [Report e phase])"
proof -
  from assms obtain c evs where b: "c \<noteq> Suspended" "list_all P evs" "effect_of body c evs"
    unfolding uniform_def by blast
  show thesis
  proof (cases c)
    case Normal
    with b have "effect_of (run [does ev, try_catch body (\<lambda>err. report err phase)]) Normal (ev # evs)"
      by (simp add: effect_of_def try_catch_def does_def emit_def)
    with b Normal show thesis using that(1) by simp
  next
    case (Throw e)
    with b have "effect_of (run [does ev, try_catch body (\<lambda>err. report err phase)]) Normal
         (ev # evs @ [Report e phase])"
      by (simp add: effect_of_def try_catch_def does_def emit_def report_def)
    with b Throw show thesis using that(2) by simp
  next
    case Suspended
    with b show thesis by simp
  qed
qed

lemma reported_append: "reported ph (xs @ ys) = reported ph xs @ reported ph ys"
  by (induction ph xs rule: reported.induct) simp_all

lemma reported_setup: "list_all setup_event evs \<Longrightarrow> reported ph evs = []"
  by (induction ph evs rule: reported.induct) simp_all

lemma effects_effect_of: "effect_of s c evs \<Longrightarrow> effects s w = evs"
  by (simp add: effect_of_def effects_def)

lemma uniform_effects: "uniform P s \<Longrightarrow> list_all P (effects s w)"
  unfolding uniform_def by (auto simp: effects_effect_of)

lemma uniform_guarded:
  assumes "uniform P body" "P ev" "\<And>e. P (Report e phase)"
  shows "uniform P (run [does ev, try_catch body (\<lambda>err. report err phase)])"
  using assms
  by (auto intro!: uniform_run uniform_does uniform_try_catch simp: report_def)

lemma no_float_in_activation:
  "uniform (\<lambda>ev. ev \<noteq> Gsap (To ''.main-img'')) (initializeAnimations en)"
  unfolding initializeAnimations_def
  apply (rule uniform_guarded)
    apply (simp_all)
  unfolding animations_try_def loadGSAPAnimations_def
  apply (rule uniform_isDefined)
  apply (auto intro!: uniform_run uniform_does uniform_gsap uniform_call uniform_skip
      simp: setupMouseInteractions_def setupButtonInteractions_def buttonListeners_def)
  done

lemma no_mouse_without_gate:
  assumes "\<not> (1024 < win_innerWidth en \<and> rt_isAllowed en ''allowHeavy'' = Inr True)"
  shows "uniform (\<lambda>ev. ev \<noteq> Enter SetupMouseInteractions) (initializeAnimations en)"
proof -
  have gate: "uniform (\<lambda>ev. ev \<noteq> Enter SetupMouseInteractions)
     (if 1024 < win_innerWidth en
      then call (rt_isAllowed en ''allowHeavy'')
             (\<lambda>allowed. if allowed then setupMouseInteractions else skip)
      else skip)"
  proof (cases "1024 < win_innerWidth en")
    case False
    then show ?thesis by (simp add: uniform_skip)
  next
    case True
    with assms have na: "rt_isAllowed en ''allowHeavy'' \<noteq> Inr True" by simp
    show ?thesis
    proof (cases "rt_isAllowed en ''allowHeavy''")
      case (Inl e)
      then have "call (rt_isAllowed en ''allowHeavy'')
             (\<lambda>allowed. if allowed then setupMouseInteractions else skip) = throw e"
        by (intro ext) (simp add: call_def throw_def)
      with True show ?thesis by (simp add: uniform_throw)
    next
      case (Inr b)
      with na have "\<not> b" by simp
      with Inr have "call (rt_isAllowed en ''allowHeavy'')
             (\<lambda>allowed. if allowed then setupMouseInteractions else skip) = skip"
        by (intro ext) (simp add: call_def)
      with True show ?thesis by (simp add: uniform_skip)
    qed
  qed
  have "uniform (\<lambda>ev. ev \<noteq> Enter SetupMouseInteractions) (loadGSAPAnimations en)"
    unfolding loadGSAPAnimations_def
    apply (rule uniform_run)
    using gate
    apply (auto intro!: uniform_run uniform_does uniform_gsap
      simp: setupButtonInteractions_def buttonListeners_def)
    done
  then have "uniform (\<lambda>ev. ev \<noteq> Enter SetupMouseInteractions) (animations_try en)"
    unfolding animations_try_def
    by (intro uniform_isDefined) (auto intro!: uniform_run uniform_does)
  then show ?thesis
    unfolding initializeAnimations_def by (rule uniform_guarded) simp_all
qed

lemma guarded_shape:
  assumes "uniform setup_event body"
  obtains evs where
    "\<And>w. run [does ev, try_catch body (\<lambda>err. report err phase)] w
        = (Normal, w\<lparr>trace := trace w @ ev # evs\<rparr>)"
    "\<And>x. x \<in> set evs \<Longrightarrow> setup_event x \<or> (\<exists>e. x = Report e phase)"
    "length (reported phase evs) \<le> 1"
    "\<And>ph. ph \<noteq> phase \<Longrightarrow> reported ph evs = []"
proof (rule guarded_effect [OF assms, of ev phase])
  fix evs
  assume a: "list_all setup_event evs"
    "effect_of (run [does ev, try_catch body (\<lambda>err. report err phase)]) Normal (ev # evs)"
  show thesis
  proof (rule that [of evs])
    show "\<And>w. run [does ev, try_catch body (\<lambda>err. report err phase)] w
        = (Normal, w\<lparr>trace := trace w @ ev # evs\<rparr>)"
      using a(2) by (simp add: effect_of_def)
    show "\<And>x. x \<in> set evs \<Longrightarrow> setup_event x \<or> (\<exists>e. x = Report e phase)"
      using a(1) by (simp add: list_all_iff)
    show "length (reported phase evs) \<le> 1" using a(1) by (simp add: reported_setup)
    show "\<And>ph. ph \<noteq> phase \<Longrightarrow> reported ph evs = []" using a(1) by (simp add: reported_setup)
  qed
next
  fix e evs
  assume a: "list_all setup_event evs"
    "effect_of (run [does ev, try_catch body (\<lambda>err. report err phase)]) Normal
       (ev # evs @ [Report e phase])"
  show thesis
  proof (rule that [of "evs @ [Report e phase]"])
    show "\<And>w. run [does ev, try_catch body (\<lambda>err. report err phase)] w
        = (Normal, w\<lparr>trace := trace w @ ev # evs @ [Report e phase]\<rparr>)"
      using a(2) by (simp add: effect_of_def)
    show "\<And>x. x \<in> set (evs @ [Report e phase]) \<Longrightarrow> setup_event x \<or> (\<exists>e. x = Report e phase)"
      using a(1) by (auto simp: list_all_iff)
    show "length (reported phase (evs @ [Report e phase])) \<le> 1"
      using a(1) by (simp add: reported_setup reported_append)
    show "\<And>ph. ph \<noteq> phase \<Longrightarrow> reported ph (evs @ [Report e phase]) = []"
      using a(1) by (simp add: reported_setup reported_append)
  qed
qed

lemmas initializeAnimations_shape =
  guarded_shape [OF uniform_animations_try, where ev = "Enter InitializeAnimations" and phase = "''animations''",
    folded initializeAnimations_def]

lemmas initializeWebGL_shape =
  guarded_shape [OF uniform_webgl_try, where ev = "Enter InitializeWebGL" and phase = "''webgl''",
    folded initializeWebGL_def]

section \<open>The runs of \<^verbatim>\<open>init\<close>\<close>

text \<open>
  A run of \<^verbatim>\<open>init\<close> on a fresh \<^verbatim>\<open>App\<close> ends in one of three ways: pending, because
  the document never becomes ready; fulfilled after the fallback panel was shown, because
  the \<^verbatim>\<open>try\<close> block threw; or fulfilled with the application initialized.
\<close>

lemma init_try_dom:
  "init_try en constructor =
     (if dom_ready en
      then run [call (rt_getState en) (\<lambda>runtimeState.
            run [does (ConsoleLog ''Runtime Score''),
                 does (ConsoleLog ''Performance decisions''),
                 call (data_getAllProducts en) (\<lambda>productData.
                   call (adapter_renderAllProducts en productData) (\<lambda>renderResult.
                     run [does (RenderReturned renderResult),
                          (if \<not> success renderResult
                           then throw (Error (errorMessage (error renderResult)))
                           else skip),
                          does (ConsoleLog ''Products rendered''),
                          (if allowAnimations (decisions runtimeState)
                           then initializeAnimations en else skip),
                          (if allowWebGL (decisions runtimeState)
                           then initializeWebGL en else skip),
                          initializeScroll,
                          setInitialized,
                          does (ConsoleLog ''Application initialized successfully'')]))])]
          (constructor\<lparr>trace := dom_events en\<rparr>)
      else (Suspended, constructor\<lparr>trace := dom_events en\<rparr>))"
  by (simp add: init_try_def waitForDOM_def does_def emit_def dom_events_def dom_ready_def
      constructor_def Let_def)

lemma init_cases [case_names pending failed ready]:
  obtains
    "\<not> dom_ready en"
    "init_try en constructor = (Suspended, constructor\<lparr>trace := dom_events en\<rparr>)"
    "init en constructor = (Suspended, constructor\<lparr>trace := dom_events en\<rparr>)"
  | e pre where
    "dom_ready en"
    "init_try en constructor = (Throw e, constructor\<lparr>trace := dom_events en @ pre\<rparr>)"
    "init en constructor =
       (Normal, constructor\<lparr>innerHTML := FallbackHTML, trace := dom_events en @ pre @
          [ConsoleError e, Report e ''initialization'', Enter ShowFallbackUI]\<rparr>)"
    "\<And>x. x \<in> set pre \<Longrightarrow> (\<exists>s. x = ConsoleLog s)
        \<or> (\<exists>r. x = RenderReturned r \<and> \<not> success r \<and> e = Error (errorMessage (error r)))"
    "rt_getState en = Inl e \<or> data_getAllProducts en = Inl e
       \<or> (\<exists>ps. data_getAllProducts en = Inr ps \<and> adapter_renderAllProducts en ps = Inl e)
       \<or> (\<exists>ps r. data_getAllProducts en = Inr ps \<and> adapter_renderAllProducts en ps = Inr r
            \<and> \<not> success r \<and> e = Error (errorMessage (error r)))"
  | st ps rr evsA evsW where
    "dom_ready en"
    "rt_getState en = Inr st" "data_getAllProducts en = Inr ps"
    "adapter_renderAllProducts en ps = Inr rr" "success rr"
    "init_try en constructor = init en constructor"
    "init en constructor =
       (Normal, constructor\<lparr>initialized := True, trace := dom_events en @
          [ConsoleLog ''Runtime Score'', ConsoleLog ''Performance decisions'',
           RenderReturned rr, ConsoleLog ''Products rendered'']
          @ (if allowAnimations (decisions st) then Enter InitializeAnimations # evsA else [])
          @ (if allowWebGL (decisions st) then Enter InitializeWebGL # evsW else [])
          @ [Enter InitializeScroll, ConsoleLog ''Scroll initialized'',
             ConsoleLog ''Application initialized successfully'']\<rparr>)"
    "\<And>x. x \<in> set evsA \<Longrightarrow> setup_event x \<or> (\<exists>e. x = Report e ''animations'')"
    "length (reported ''animations'' evsA) \<le> 1"
    "\<And>ph. ph \<noteq> ''animations'' \<Longrightarrow> reported ph evsA = []"
    "\<And>x. x \<in> set evsW \<Longrightarrow> setup_event x \<or> (\<exists>e. x = Report e ''webgl'')"
    "length (reported ''webgl'' evsW) \<le> 1"
    "\<And>ph. ph \<noteq> ''webgl'' \<Longrightarrow> reported ph evsW = []"
proof -
  obtain evsA where A: "\<And>w. initializeAnimations en w
        = (Normal, w\<lparr>trace := trace w @ Enter InitializeAnimations # evsA\<rparr>)"
    and PA: "\<And>x. x \<in> set evsA \<Longrightarrow> setup_event x \<or> (\<exists>e. x = Report e ''animations'')"
    and LA: "length (reported ''animations'' evsA) \<le> 1"
    and OA: "\<And>ph. ph \<noteq> ''animations'' \<Longrightarrow> reported ph evsA = []"
    by (rule initializeAnimations_shape [where en = en]) blast
  obtain evsW where W: "\<And>w. initializeWebGL en w
        = (Normal, w\<lparr>trace := trace w @ Enter InitializeWebGL # evsW\<rparr>)"
    and PW: "\<And>x. x \<in> set evsW \<Longrightarrow> setup_event x \<or> (\<exists>e. x = Report e ''webgl'')"
    and LW: "length (reported ''webgl'' evsW) \<le> 1"
    and OW: "\<And>ph. ph \<noteq> ''webgl'' \<Longrightarrow> reported ph evsW = []"
    by (rule initializeWebGL_shape [where en = en]) blast
  note unf = init_try_dom init_def init_catch_def try_catch_def call_def does_def emit_def
    skip_def throw_def report_def showFallbackUI_def setInitialized_def initializeScroll_def
  show thesis
  proof (cases "dom_ready en")
    case False
    then show thesis by (intro that(1)) (simp_all add: unf)
  next
    case dom: True
    show thesis
    proof (cases "rt_getState en")
      case (Inl e)
      with dom show thesis by (intro that(2) [of e "[]"]) (simp_all add: unf)
    next
      case st: (Inr st)
      show thesis
      proof (cases "data_getAllProducts en")
        case (Inl e)
        with dom st show thesis
          by (intro that(2) [of e "[ConsoleLog ''Runtime Score'',
                ConsoleLog ''Performance decisions'']"]) (auto simp add: unf)
      next
        case ps: (Inr ps)
        show thesis
        proof (cases "adapter_renderAllProducts en ps")
          case (Inl e)
          with dom st ps show thesis
            by (intro that(2) [of e "[ConsoleLog ''Runtime Score'',
                  ConsoleLog ''Performance decisions'']"]) (auto simp add: unf)
        next
          case rr: (Inr rr)
          show thesis
          proof (cases "success rr")
            case False
            with dom st ps rr show thesis
              by (intro that(2) [of "Error (errorMessage (error rr))"
                    "[ConsoleLog ''Runtime Score'', ConsoleLog ''Performance decisions'',
                      RenderReturned rr]"]) (auto simp add: unf)
          next
            case True
            with dom st ps rr show thesis
              by (intro that(3) [of st ps rr evsA evsW] PA LA OA PW LW OW)
                 (simp_all add: unf A W)
          qed
        qed
      qed
    qed
  qed
qed

lemma setup_not_core:
  assumes "\<And>x. x \<in> set evs \<Longrightarrow> setup_event x \<or> (\<exists>e. x = Report e phase)"
  shows "RenderReturned r \<notin> set evs" "Enter InitializeAnimations \<notin> set evs"
    "Enter InitializeWebGL \<notin> set evs" "Enter InitializeScroll \<notin> set evs"
    "Enter ShowFallbackUI \<notin> set evs"
  using assms by fastforce+

lemma core_prefix_plain:
  assumes "\<And>x. x \<in> set pre \<Longrightarrow> (\<exists>s. x = ConsoleLog s)
        \<or> (\<exists>r. x = RenderReturned r \<and> \<not> success r \<and> e = Error (errorMessage (error r)))"
  shows "Enter m \<notin> set pre" "Report e' ph \<notin> set pre"
  using assms by fastforce+

lemma reported_none: "(\<And>e. Report e ph \<notin> set evs) \<Longrightarrow> reported ph evs = []"
  by (induction ph evs rule: reported.induct) auto

lemma dom_events_plain:
  "Enter InitializeAnimations \<notin> set (dom_events en)"
  "Enter InitializeWebGL \<notin> set (dom_events en)"
  "Enter InitializeScroll \<notin> set (dom_events en)"
  "Enter ShowFallbackUI \<notin> set (dom_events en)"
  "RenderReturned r \<notin> set (dom_events en)"
  "Report e ph \<notin> set (dom_events en)"
  "reported ph (dom_events en) = []"
  by (simp_all add: dom_events_def)

lemma reported_mem: "e \<in> set (reported ph evs) \<longleftrightarrow> Report e ph \<in> set evs"
  by (induction ph evs rule: reported.induct) auto

lemma at_most_one: "length xs \<le> 1 \<Longrightarrow> x \<in> set xs \<Longrightarrow> xs = [x]"
  by (cases xs) auto

lemma report_then_scroll:
  assumes "Report e ph \<in> set mid"
  shows "\<exists>pre post. a @ mid @ b @ [Enter InitializeScroll, x, y] = pre @ Report e ph # post
           \<and> Enter InitializeScroll \<in> set post"
proof -
  from assms obtain m1 m2 where "mid = m1 @ Report e ph # m2" by (auto dest: split_list)
  then have "a @ mid @ b @ [Enter InitializeScroll, x, y]
      = (a @ m1) @ Report e ph # (m2 @ b @ [Enter InitializeScroll, x, y])" by simp
  moreover have "Enter InitializeScroll \<in> set (m2 @ b @ [Enter InitializeScroll, x, y])" by simp
  ultimately show ?thesis by blast
qed

lemma guarded_normal:
  assumes "uniform P body"
  shows "fst (run [does ev, try_catch body (\<lambda>err. report err phase)] w) = Normal"
  by (rule guarded_effect [OF assms, of ev phase]) (simp_all add: effect_of_def)

lemma guarded_caught:
  assumes u: "uniform setup_event body"
    and t: "body (emit ev w) = (Throw e, w')"
    and ev: "reported phase [ev] = []"
  shows "run [does ev, try_catch body (\<lambda>err. report err phase)] w
           = (Normal, emit (Report e phase) w')
         \<and> reported phase (effects (run [does ev, try_catch body (\<lambda>err. report err phase)]) w)
             = [e]"
proof (rule guarded_effect [OF u, of ev phase])
  fix evs
  assume "effect_of body Normal evs"
  with t show ?thesis by (simp add: effect_of_def)
next
  fix e2 evs
  assume a: "list_all setup_event evs" "effect_of body (Throw e2) evs"
    "effect_of (run [does ev, try_catch body (\<lambda>err. report err phase)]) Normal
       (ev # evs @ [Report e2 phase])"
  from a(2) t have e: "e2 = e" and w': "w' = (emit ev w)\<lparr>trace := trace (emit ev w) @ evs\<rparr>"
    by (simp_all add: effect_of_def)
  have "reported phase (ev # evs @ [Report e phase]) = [e]"
    using ev reported_append [of phase "[ev]" "evs @ [Report e phase]"] a(1)
    by (simp add: reported_append reported_setup)
  with a(3) e w' show ?thesis
    by (simp add: effects_effect_of) (simp add: effect_of_def emit_def)
qed

section \<open>The model at work on the sample hosts\<close>

lemmas detector_defs =
  detect_def sumScore_def gates_def disallowAll_def orDefault_def loadRuntime_def getState_def
  isAllowed_def gateTable_def gateNames_def

lemmas app_defs =
  init_def init_try_def init_catch_def try_catch_def call_def does_def emit_def skip_def
  throw_def report_def showFallbackUI_def setInitialized_def initializeScroll_def
  waitForDOM_def constructor_def initializeAnimations_def animations_try_def isDefined_def
  loadGSAPAnimations_def gsap_def setupMouseInteractions_def setupButtonInteractions_def
  buttonListeners_def initializeWebGL_def webgl_try_def errorMessage_def
  introTL_onComplete_def effects_def

lemma strong_state:
  "detect samplePolicy strongSignals =
     \<lparr>score = 100,
      decisions = \<lparr>allowAnimations = True, allowHeavy = True, allowWebGL = True\<rparr>,
      signals = strongSignals\<rparr>"
  by (simp add: detector_defs samplePolicy_def strongSignals_def)

lemma mid_state:
  "detect samplePolicy midSignals =
     \<lparr>score = 55,
      decisions = \<lparr>allowAnimations = True, allowHeavy = False, allowWebGL = False\<rparr>,
      signals = midSignals\<rparr>"
  by (simp add: detector_defs samplePolicy_def midSignals_def)

lemma init_desktopHost:
  "init desktopHost constructor =
    (Normal,
     \<lparr>initialized = True, innerHTML = PageMarkup,
      trace =
       [ConsoleLog ''Lumina Headphones - Initializing...'',
        Enter WaitForDOM, ConsoleLog ''Runtime Score'',
        ConsoleLog ''Performance decisions'',
        RenderReturned
         \<lparr>success = True, successful = 2, total_count = 2, error = None\<rparr>,
        ConsoleLog ''Products rendered'', Enter InitializeAnimations,
        Enter LoadGSAPAnimations, Gsap Timeline,
        Gsap (From ''.product-section''), Gsap (From ''.info h2''),
        Gsap (From ''.info p, .mini-label, .specs-row, .buy-btn''),
        Gsap (From ''.main-img''), Gsap (EventCallback ''onComplete''),
        Enter SetupMouseInteractions,
        AddEventListener ''document'' ''mousemove'',
        AddEventListener ''document'' ''mouseleave'',
        Enter SetupButtonInteractions,
        AddEventListener ''buy-btn-1'' ''mouseenter'',
        AddEventListener ''buy-btn-1'' ''mouseleave'',
        AddEventListener ''buy-btn-1'' ''mousedown'',
        AddEventListener ''buy-btn-1'' ''mouseup'',
        ConsoleLog ''Animations enabled'', Enter InitializeWebGL,
        ConsoleLog ''WebGL available'', Enter InitializeScroll,
        ConsoleLog ''Scroll initialized'',
        ConsoleLog ''Application initialized successfully'']\<rparr>)"
  by (simp add: app_defs desktopHost_def getState_def loadRuntime_def isAllowed_def
      gateTable_def strong_state)

lemma init_failedRenderHost:
  "init failedRenderHost constructor =
    (Normal,
     \<lparr>initialized = False, innerHTML = FallbackHTML,
      trace =
       [ConsoleLog ''Lumina Headphones - Initializing...'',
        Enter WaitForDOM, ConsoleLog ''Runtime Score'',
        ConsoleLog ''Performance decisions'',
        RenderReturned failedResult,
        ConsoleError (Error ''Container not found''),
        Report (Error ''Container not found'') ''initialization'',
        Enter ShowFallbackUI]\<rparr>)"
  by (simp add: app_defs failedRenderHost_def desktopHost_def getState_def loadRuntime_def
      isAllowed_def gateTable_def strong_state) (simp add: failedResult_def)

lemma init_brokenLibrariesHost:
  "init brokenLibrariesHost constructor =
    (Normal,
     \<lparr>initialized = True, innerHTML = PageMarkup,
      trace =
       [ConsoleLog ''Lumina Headphones - Initializing...'',
        Enter WaitForDOM, ConsoleLog ''Runtime Score'',
        ConsoleLog ''Performance decisions'',
        RenderReturned
         \<lparr>success = True, successful = 2, total_count = 2, error = None\<rparr>,
        ConsoleLog ''Products rendered'', Enter InitializeAnimations,
        Enter LoadGSAPAnimations,
        Report (Error ''gsap.timeline is not a function'') ''animations'',
        Enter InitializeWebGL,
        Report (Error ''THREE getter failed'') ''webgl'',
        Enter InitializeScroll, ConsoleLog ''Scroll initialized'',
        ConsoleLog ''Application initialized successfully'']\<rparr>)"
  by (simp add: app_defs brokenLibrariesHost_def desktopHost_def getState_def loadRuntime_def
      isAllowed_def gateTable_def strong_state)

lemma init_try_noRuntimeHost:
  "init_try noRuntimeHost constructor =
    (Throw (Error ''matchMedia is not a function''),
     \<lparr>initialized = False, innerHTML = PageMarkup,
      trace = [ConsoleLog ''Lumina Headphones - Initializing...'', Enter WaitForDOM]\<rparr>)"
  by (simp add: app_defs noRuntimeHost_def desktopHost_def)

section \<open>The capability detector: claims C1, C6, C7, C8\<close>

text \<open>
  \<^bold>\<open>Claim C1.\<close> Whenever the reduced-motion preference is requested, the computed
  state has \<open>allowAnimations\<close>, \<open>allowHeavy\<close> and \<open>allowWebGL\<close> all false, whatever the
  policy and whatever the other signals (memory, cores, network class, viewport width)
  are. The check comes before the scoring: no signal is scored, the state is the same
  record for every policy, and the controller loaded from such signals answers \<open>false\<close>
  for every gate name.
\<close>

theorem reduced_motion_disallows_all:
  assumes "reducedMotion sg = Some True"
  shows "allowAnimations (decisions (detect p sg)) = False
    \<and> allowHeavy (decisions (detect p sg)) = False
    \<and> allowWebGL (decisions (detect p sg)) = False
    \<and> detect p sg = \<lparr>score = 0, decisions = disallowAll, signals = sg\<rparr>
    \<and> fst (getState (loadRuntime p sg)) = Inr (detect p sg)
    \<and> isAllowed (loadRuntime p sg) gateName = Inr False"
  using assms by (simp add: detector_defs)

theorem reduced_motion_disallows_all_witness:
  "reducedMotion calmSignals = Some True
   \<and> allowAnimations (decisions (detect samplePolicy calmSignals)) = False
   \<and> allowHeavy (decisions (detect samplePolicy calmSignals)) = False
   \<and> allowWebGL (decisions (detect samplePolicy calmSignals)) = False
   \<and> score (detect samplePolicy calmSignals) = 0
   \<and> allowWebGL (decisions (detect samplePolicy (calmSignals\<lparr>reducedMotion := Some False\<rparr>)))"
proof -
  have h: "reducedMotion calmSignals = Some True"
    by (simp add: calmSignals_def)
  have c: "allowWebGL (decisions (detect samplePolicy (calmSignals\<lparr>reducedMotion := Some False\<rparr>)))"
    by (simp add: detector_defs samplePolicy_def calmSignals_def strongSignals_def)
  from reduced_motion_disallows_all [OF h, of samplePolicy "''allowHeavy''"] h c
  show ?thesis by (simp add: disallowAll_def)
qed

text \<open>
  \<^bold>\<open>Claim C6.\<close> For every gate name that is not one of the three gates of the decisions
  record, \<open>isAllowed\<close> returns \<open>false\<close>; it returns (\<open>Inr\<close>) and does not throw.
\<close>

theorem unknown_gate_disallowed:
  assumes "gateName \<notin> set gateNames"
  shows "isAllowed rc gateName = Inr False"
  using assms by (simp add: isAllowed_def gateTable_def gateNames_def)

theorem unknown_gate_disallowed_witness:
  "''allowEverything'' \<notin> set gateNames
   \<and> isAllowed (loadRuntime samplePolicy strongSignals) ''allowEverything'' = Inr False
   \<and> isAllowed (loadRuntime samplePolicy strongSignals) ''allowHeavy'' = Inr True"
proof -
  have h: "''allowEverything'' \<notin> set gateNames" by (simp add: gateNames_def gateTable_def)
  have k: "isAllowed (loadRuntime samplePolicy strongSignals) ''allowHeavy'' = Inr True"
    by (simp add: isAllowed_def gateTable_def loadRuntime_def strong_state)
  from unknown_gate_disallowed [OF h] h k show ?thesis by simp
qed

text \<open>
  \<^bold>\<open>Claim C7.\<close> Two calls of \<open>getState\<close> in succession both return a snapshot, the two
  snapshots have the same score and the same decisions, and the controller is unchanged.
  For the controller loaded from a policy and signals, both are the state detected from
  them.
\<close>

theorem getState_repeatable:
  "(case getState rc of (r1, rc1) \<Rightarrow>
      case getState rc1 of (r2, rc2) \<Rightarrow>
        \<exists>s1 s2. r1 = Inr s1 \<and> r2 = Inr s2 \<and> score s1 = score s2
          \<and> decisions s1 = decisions s2 \<and> rc2 = rc)
   \<and> (case getState (loadRuntime p sg) of (r1, rc1) \<Rightarrow>
        r1 = Inr (detect p sg) \<and> fst (getState rc1) = Inr (detect p sg))"
  by (simp add: getState_def loadRuntime_def)

text \<open>
  \<^bold>\<open>Claim C8.\<close> When reduced motion is not requested, the score is the single summed
  score and every gate is that score compared with a cut point: the low one for
  \<open>allowAnimations\<close>, the high one for \<open>allowHeavy\<close> and \<open>allowWebGL\<close>. With the low cut
  point no higher than the high one, \<open>allowHeavy\<close> or \<open>allowWebGL\<close> implies
  \<open>allowAnimations\<close>, and the gates are monotone in the score: a gate that is open for
  some signals is open for any signals that score at least as much.
\<close>

theorem gates_threshold_monotone:
  assumes "lowCut p \<le> highCut p"
    and "reducedMotion sg \<noteq> Some True" and "reducedMotion sg' \<noteq> Some True"
  shows "score (detect p sg) = sumScore p sg
    \<and> decisions (detect p sg) =
        \<lparr>allowAnimations = (lowCut p \<le> score (detect p sg)),
         allowHeavy = (highCut p \<le> score (detect p sg)),
         allowWebGL = (highCut p \<le> score (detect p sg))\<rparr>
    \<and> (allowHeavy (decisions (detect p sg)) \<or> allowWebGL (decisions (detect p sg))
        \<longrightarrow> allowAnimations (decisions (detect p sg)))
    \<and> (score (detect p sg) \<le> score (detect p sg')
        \<longrightarrow> (allowAnimations (decisions (detect p sg))
              \<longrightarrow> allowAnimations (decisions (detect p sg')))
          \<and> (allowHeavy (decisions (detect p sg)) \<longrightarrow> allowHeavy (decisions (detect p sg')))
          \<and> (allowWebGL (decisions (detect p sg)) \<longrightarrow> allowWebGL (decisions (detect p sg'))))"
  using assms by (simp add: detect_def gates_def)

theorem gates_threshold_monotone_witness:
  "lowCut samplePolicy \<le> highCut samplePolicy
   \<and> reducedMotion midSignals \<noteq> Some True \<and> reducedMotion strongSignals \<noteq> Some True
   \<and> score (detect samplePolicy midSignals) = 55
   \<and> score (detect samplePolicy midSignals) \<le> score (detect samplePolicy strongSignals)
   \<and> allowAnimations (decisions (detect samplePolicy midSignals))
   \<and> allowAnimations (decisions (detect samplePolicy strongSignals))
   \<and> allowHeavy (decisions (detect samplePolicy strongSignals))
   \<and> decisions (detect samplePolicy midSignals) =
        \<lparr>allowAnimations = (lowCut samplePolicy \<le> score (detect samplePolicy midSignals)),
         allowHeavy = (highCut samplePolicy \<le> score (detect samplePolicy midSignals)),
         allowWebGL = (highCut samplePolicy \<le> score (detect samplePolicy midSignals))\<rparr>"
proof -
  have h1: "lowCut samplePolicy \<le> highCut samplePolicy" by (simp add: samplePolicy_def)
  have h2: "reducedMotion midSignals \<noteq> Some True" by (simp add: midSignals_def)
  have h3: "reducedMotion strongSignals \<noteq> Some True" by (simp add: strongSignals_def)
  have s: "score (detect samplePolicy midSignals) = 55"
    "score (detect samplePolicy strongSignals) = 100"
    "allowAnimations (decisions (detect samplePolicy midSignals))"
    "allowHeavy (decisions (detect samplePolicy strongSignals))"
    by (simp_all add: mid_state strong_state)
  from gates_threshold_monotone [OF h1 h2 h3] gates_threshold_monotone [OF h1 h3 h3] h1 h2 h3 s
  show ?thesis by simp
qed

section \<open>The application: claims C2, C3, C4, C5, C9, C10\<close>

text \<open>
  \<^bold>\<open>Claim C2.\<close> In every run of \<^verbatim>\<open>init\<close> in which \<^verbatim>\<open>renderAllProducts\<close> returns
  a result whose \<open>success\<close> is false, neither \<^verbatim>\<open>initializeAnimations\<close> nor
  \<^verbatim>\<open>initializeWebGL\<close> (nor \<^verbatim>\<open>initializeScroll\<close>) is entered; the error built
  from the result is reported under \<open>initialization\<close>, \<^verbatim>\<open>showFallbackUI\<close> runs and
  replaces the body by the fallback panel, and the application is not marked initialized.
\<close>

theorem render_failure_aborts:
  assumes "RenderReturned r \<in> set (trace (snd (init en constructor)))" and "\<not> success r"
  shows "Enter InitializeAnimations \<notin> set (trace (snd (init en constructor)))
    \<and> Enter InitializeWebGL \<notin> set (trace (snd (init en constructor)))
    \<and> Enter InitializeScroll \<notin> set (trace (snd (init en constructor)))
    \<and> fst (init en constructor) = Normal
    \<and> Report (Error (errorMessage (error r))) ''initialization''
         \<in> set (trace (snd (init en constructor)))
    \<and> Enter ShowFallbackUI \<in> set (trace (snd (init en constructor)))
    \<and> innerHTML (snd (init en constructor)) = FallbackHTML
    \<and> \<not> initialized (snd (init en constructor))"
proof (cases en rule: init_cases)
  case pending
  with assms show ?thesis by (simp add: dom_events_plain)
next
  case (failed e pre)
  from assms failed(3) have "RenderReturned r \<in> set pre" by (simp add: dom_events_plain)
  with failed(4) [of "RenderReturned r"] have e: "e = Error (errorMessage (error r))" by simp
  show ?thesis using failed(3) e
    by (simp add: dom_events_plain core_prefix_plain [OF failed(4)] constructor_def)
next
  case (ready st ps rr evsA evsW)
  from assms(1) ready(7) have "r = rr"
    by (simp add: dom_events_plain setup_not_core [OF ready(8)] setup_not_core [OF ready(11)]
        split: if_splits)
  with assms(2) ready(5) show ?thesis by simp
qed

theorem render_failure_aborts_witness:
  "RenderReturned failedResult \<in> set (trace (snd (init failedRenderHost constructor)))
   \<and> \<not> success failedResult
   \<and> Enter InitializeAnimations \<notin> set (trace (snd (init failedRenderHost constructor)))
   \<and> Enter InitializeWebGL \<notin> set (trace (snd (init failedRenderHost constructor)))
   \<and> fst (init failedRenderHost constructor) = Normal
   \<and> Enter ShowFallbackUI \<in> set (trace (snd (init failedRenderHost constructor)))
   \<and> innerHTML (snd (init failedRenderHost constructor)) = FallbackHTML"
proof -
  have h1: "RenderReturned failedResult \<in> set (trace (snd (init failedRenderHost constructor)))"
    by (simp add: init_failedRenderHost)
  have h2: "\<not> success failedResult" by (simp add: failedResult_def)
  from render_failure_aborts [OF h1 h2] h1 h2 show ?thesis by simp
qed

text \<open>
  \<^bold>\<open>Claim C3.\<close> Neither activation call ever ends by throwing. When the \<^verbatim>\<open>try\<close>
  block of \<^verbatim>\<open>initializeAnimations\<close> (of \<^verbatim>\<open>initializeWebGL\<close>) throws, the call
  ends normally after sending that exception to the error collaborator under the phase
  tag \<open>animations\<close> (\<open>webgl\<close>), and that is the one report of the call under the tag.
  In a run of \<^verbatim>\<open>init\<close>, whenever such a report was sent, \<^verbatim>\<open>init\<close> is fulfilled
  with the application initialized, the report is the only one under its tag, and
  \<^verbatim>\<open>initializeScroll\<close> is entered after it.
\<close>

theorem activation_exceptions_contained:
  "fst (initializeAnimations en w) = Normal \<and> fst (initializeWebGL en w) = Normal
   \<and> (animations_try en (emit (Enter InitializeAnimations) w) = (Throw e, w')
      \<longrightarrow> initializeAnimations en w = (Normal, emit (Report e ''animations'') w')
        \<and> reported ''animations'' (effects (initializeAnimations en) w) = [e])
   \<and> (webgl_try en (emit (Enter InitializeWebGL) w) = (Throw e, w')
      \<longrightarrow> initializeWebGL en w = (Normal, emit (Report e ''webgl'') w')
        \<and> reported ''webgl'' (effects (initializeWebGL en) w) = [e])
   \<and> ((ph = ''animations'' \<or> ph = ''webgl'')
        \<and> Report e ph \<in> set (trace (snd (init en constructor)))
      \<longrightarrow> fst (init en constructor) = Normal
        \<and> initialized (snd (init en constructor))
        \<and> reported ph (trace (snd (init en constructor))) = [e]
        \<and> (\<exists>pre post. trace (snd (init en constructor)) = pre @ Report e ph # post
              \<and> Enter InitializeScroll \<in> set post))"
proof (intro conjI impI)
  show "fst (initializeAnimations en w) = Normal"
    unfolding initializeAnimations_def by (rule guarded_normal [OF uniform_animations_try])
  show "fst (initializeWebGL en w) = Normal"
    unfolding initializeWebGL_def by (rule guarded_normal [OF uniform_webgl_try])
next
  assume t: "animations_try en (emit (Enter InitializeAnimations) w) = (Throw e, w')"
  note c = guarded_caught [OF uniform_animations_try t, of "''animations''",
      folded initializeAnimations_def]
  from c show "initializeAnimations en w = (Normal, emit (Report e ''animations'') w')" by simp
  from c show "reported ''animations'' (effects (initializeAnimations en) w) = [e]" by simp
next
  assume t: "webgl_try en (emit (Enter InitializeWebGL) w) = (Throw e, w')"
  note c = guarded_caught [OF uniform_webgl_try t, of "''webgl''",
      folded initializeWebGL_def]
  from c show "initializeWebGL en w = (Normal, emit (Report e ''webgl'') w')" by simp
  from c show "reported ''webgl'' (effects (initializeWebGL en) w) = [e]" by simp
next
  assume h: "(ph = ''animations'' \<or> ph = ''webgl'')
        \<and> Report e ph \<in> set (trace (snd (init en constructor)))"
  then have ph: "ph = ''animations'' \<or> ph = ''webgl''"
    and r: "Report e ph \<in> set (trace (snd (init en constructor)))" by simp_all
  have "fst (init en constructor) = Normal
        \<and> initialized (snd (init en constructor))
        \<and> reported ph (trace (snd (init en constructor))) = [e]
        \<and> (\<exists>pre post. trace (snd (init en constructor)) = pre @ Report e ph # post
              \<and> Enter InitializeScroll \<in> set post)"
  proof (cases en rule: init_cases)
    case pending
    with r show ?thesis by (simp add: dom_events_plain)
  next
    case (failed e2 pre)
    with r ph show ?thesis
      by (auto simp: dom_events_plain core_prefix_plain [OF failed(4)])
  next
    case (ready st ps rr evsA evsW)
    let ?A = "if allowAnimations (decisions st) then Enter InitializeAnimations # evsA else []"
    let ?W = "if allowWebGL (decisions st) then Enter InitializeWebGL # evsW else []"
    let ?core = "dom_events en @ [ConsoleLog ''Runtime Score'',
        ConsoleLog ''Performance decisions'', RenderReturned rr, ConsoleLog ''Products rendered'']"
    have tr: "trace (snd (init en constructor)) = ?core @ ?A @ ?W
        @ [Enter InitializeScroll, ConsoleLog ''Scroll initialized'',
           ConsoleLog ''Application initialized successfully'']"
      by (simp add: ready(7))
    have fi: "fst (init en constructor) = Normal" "initialized (snd (init en constructor))"
      by (simp_all add: ready(7))
    have rA: "reported ''webgl'' ?A = []" "length (reported ''animations'' ?A) \<le> 1"
      using ready(9) ready(10) [of "''webgl''"] by simp_all
    have rW: "reported ''animations'' ?W = []" "length (reported ''webgl'' ?W) \<le> 1"
      using ready(12) ready(13) [of "''animations''"] by simp_all
    have mA: "Report e ''webgl'' \<notin> set ?A" using rA(1) reported_mem [of e "''webgl''" ?A] by simp
    have mW: "Report e ''animations'' \<notin> set ?W"
      using rW(1) reported_mem [of e "''animations''" ?W] by simp
    from ph show ?thesis
    proof
      assume p: "ph = ''animations''"
      from r mW have m: "Report e ph \<in> set ?A"
        unfolding tr p by (auto simp: dom_events_plain split: if_splits)
      then have "e \<in> set (reported ''animations'' ?A)" by (simp only: reported_mem p)
      with rA(2) have "reported ''animations'' ?A = [e]" by (rule at_most_one)
      then have one: "reported ph (trace (snd (init en constructor))) = [e]"
        unfolding tr p using rW(1) by (simp add: reported_append dom_events_plain)
      from report_then_scroll [OF m, of ?core ?W] have
        "\<exists>pre post. trace (snd (init en constructor)) = pre @ Report e ph # post
              \<and> Enter InitializeScroll \<in> set post"
        unfolding tr by simp
      with fi one show ?thesis by simp
    next
      assume p: "ph = ''webgl''"
      from r mA have m: "Report e ph \<in> set ?W"
        unfolding tr p by (auto simp: dom_events_plain split: if_splits)
      then have "e \<in> set (reported ''webgl'' ?W)" by (simp only: reported_mem p)
      with rW(2) have "reported ''webgl'' ?W = [e]" by (rule at_most_one)
      then have one: "reported ph (trace (snd (init en constructor))) = [e]"
        unfolding tr p using rA(1) by (simp add: reported_append dom_events_plain)
      from report_then_scroll [OF m, of "?core @ ?A" "[]"] have
        "\<exists>pre post. trace (snd (init en constructor)) = pre @ Report e ph # post
              \<and> Enter InitializeScroll \<in> set post"
        unfolding tr by simp
      with fi one show ?thesis by simp
    qed
  qed
  then show "fst (init en constructor) = Normal"
    and "initialized (snd (init en constructor))"
    and "reported ph (trace (snd (init en constructor))) = [e]"
    and "\<exists>pre post. trace (snd (init en constructor)) = pre @ Report e ph # post
              \<and> Enter InitializeScroll \<in> set post"
    by simp_all
qed

theorem activation_exceptions_contained_witness:
  "fst (animations_try brokenLibrariesHost (emit (Enter InitializeAnimations) constructor))
     = Throw (Error ''gsap.timeline is not a function'')
   \<and> initializeAnimations brokenLibrariesHost constructor
     = (Normal, emit (Report (Error ''gsap.timeline is not a function'') ''animations'')
         (snd (animations_try brokenLibrariesHost (emit (Enter InitializeAnimations) constructor))))
   \<and> reported ''animations'' (effects (initializeAnimations brokenLibrariesHost) constructor)
     = [Error ''gsap.timeline is not a function'']
   \<and> fst (webgl_try brokenLibrariesHost (emit (Enter InitializeWebGL) constructor))
     = Throw (Error ''THREE getter failed'')
   \<and> initializeWebGL brokenLibrariesHost constructor
     = (Normal, emit (Report (Error ''THREE getter failed'') ''webgl'')
         (snd (webgl_try brokenLibrariesHost (emit (Enter InitializeWebGL) constructor))))
   \<and> Report (Error ''gsap.timeline is not a function'') ''animations''
       \<in> set (trace (snd (init brokenLibrariesHost constructor)))
   \<and> fst (init brokenLibrariesHost constructor) = Normal
   \<and> initialized (snd (init brokenLibrariesHost constructor))
   \<and> reported ''animations'' (trace (snd (init brokenLibrariesHost constructor)))
       = [Error ''gsap.timeline is not a function'']
   \<and> (\<exists>pre post. trace (snd (init brokenLibrariesHost constructor))
          = pre @ Report (Error ''gsap.timeline is not a function'') ''animations'' # post
        \<and> Enter InitializeScroll \<in> set post)"
proof -
  let ?ea = "Error ''gsap.timeline is not a function''"
  let ?ew = "Error ''THREE getter failed''"
  let ?wa = "snd (animations_try brokenLibrariesHost (emit (Enter InitializeAnimations) constructor))"
  let ?ww = "snd (webgl_try brokenLibrariesHost (emit (Enter InitializeWebGL) constructor))"
  have fa: "fst (animations_try brokenLibrariesHost (emit (Enter InitializeAnimations) constructor))
      = Throw ?ea"
    by (simp add: app_defs brokenLibrariesHost_def desktopHost_def)
  have fw: "fst (webgl_try brokenLibrariesHost (emit (Enter InitializeWebGL) constructor))
      = Throw ?ew"
    by (simp add: app_defs brokenLibrariesHost_def desktopHost_def)
  have a: "animations_try brokenLibrariesHost (emit (Enter InitializeAnimations) constructor)
      = (Throw ?ea, ?wa)"
    using fa by (simp add: prod_eq_iff)
  have w: "webgl_try brokenLibrariesHost (emit (Enter InitializeWebGL) constructor)
      = (Throw ?ew, ?ww)"
    using fw by (simp add: prod_eq_iff)
  have r: "Report ?ea ''animations'' \<in> set (trace (snd (init brokenLibrariesHost constructor)))"
    by (simp add: init_brokenLibrariesHost)
  from activation_exceptions_contained
         [of brokenLibrariesHost constructor ?ea ?wa "''animations''"]
       activation_exceptions_contained
         [of brokenLibrariesHost constructor ?ew ?ww "''webgl''"]
       a w r fa fw
  show ?thesis by blast
qed

text \<open>
  \<^bold>\<open>Claim C4\<close>, as stated, says that in every run of \<^verbatim>\<open>init\<close> each activation
  path is invoked exactly when its gate is true and that scroll set-up always happens.
  It fails on a run whose rendering reports failure: on the host below both gates are true,
  and yet neither activation path nor scroll set-up is entered.
\<close>

theorem gated_activation_counterexample:
  "rt_getState failedRenderHost = Inr (detect samplePolicy strongSignals)
   \<and> allowAnimations (decisions (detect samplePolicy strongSignals))
   \<and> allowWebGL (decisions (detect samplePolicy strongSignals))
   \<and> Enter InitializeAnimations \<notin> set (trace (snd (init failedRenderHost constructor)))
   \<and> Enter InitializeWebGL \<notin> set (trace (snd (init failedRenderHost constructor)))
   \<and> Enter InitializeScroll \<notin> set (trace (snd (init failedRenderHost constructor)))"
  by (simp add: init_failedRenderHost strong_state)
     (simp add: failedRenderHost_def desktopHost_def getState_def loadRuntime_def strong_state)

text \<open>
  \<^bold>\<open>Claim C4, amended.\<close> In every run of \<^verbatim>\<open>init\<close> an activation path is entered
  only if its gate is true. In every run in which \<^verbatim>\<open>renderAllProducts\<close> returned a
  result whose \<open>success\<close> is true, \<^verbatim>\<open>initializeAnimations\<close> is entered once if
  \<open>allowAnimations\<close> is true and not at all otherwise, \<^verbatim>\<open>initializeWebGL\<close> likewise
  with \<open>allowWebGL\<close>, and \<^verbatim>\<open>initializeScroll\<close> is entered once whatever the
  decisions are.
\<close>

theorem gates_drive_activation:
  "(Enter InitializeAnimations \<in> set (trace (snd (init en constructor)))
      \<longrightarrow> (\<exists>st. rt_getState en = Inr st \<and> allowAnimations (decisions st)))
   \<and> (Enter InitializeWebGL \<in> set (trace (snd (init en constructor)))
      \<longrightarrow> (\<exists>st. rt_getState en = Inr st \<and> allowWebGL (decisions st)))
   \<and> (RenderReturned r \<in> set (trace (snd (init en constructor))) \<and> success r
      \<longrightarrow> (\<exists>st. rt_getState en = Inr st
            \<and> count_list (trace (snd (init en constructor))) (Enter InitializeAnimations)
                = (if allowAnimations (decisions st) then 1 else 0)
            \<and> count_list (trace (snd (init en constructor))) (Enter InitializeWebGL)
                = (if allowWebGL (decisions st) then 1 else 0)
            \<and> count_list (trace (snd (init en constructor))) (Enter InitializeScroll) = 1))"
proof (cases en rule: init_cases)
  case pending
  then show ?thesis by (simp add: dom_events_plain)
next
  case (failed e pre)
  have "\<not> (RenderReturned r \<in> set pre \<and> success r)"
    using failed(4) [of "RenderReturned r"] by auto
  with failed(3) show ?thesis
    by (simp add: dom_events_plain core_prefix_plain [OF failed(4)])
next
  case (ready st ps rr evsA evsW)
  note nA = setup_not_core [OF ready(8)] and nW = setup_not_core [OF ready(11)]
  show ?thesis using ready(2,7)
    by (simp add: dom_events_plain nA nW)
qed

theorem gates_drive_activation_witness:
  "RenderReturned \<lparr>success = True, successful = 2, total_count = 2, error = None\<rparr>
     \<in> set (trace (snd (init desktopHost constructor)))
   \<and> success \<lparr>success = True, successful = 2, total_count = 2, error = None\<rparr>
   \<and> Enter InitializeAnimations \<in> set (trace (snd (init desktopHost constructor)))
   \<and> Enter InitializeWebGL \<in> set (trace (snd (init desktopHost constructor)))
   \<and> (\<exists>st. rt_getState desktopHost = Inr st
        \<and> allowAnimations (decisions st) \<and> allowWebGL (decisions st)
        \<and> count_list (trace (snd (init desktopHost constructor))) (Enter InitializeAnimations)
            = (if allowAnimations (decisions st) then 1 else 0)
        \<and> count_list (trace (snd (init desktopHost constructor))) (Enter InitializeWebGL)
            = (if allowWebGL (decisions st) then 1 else 0)
        \<and> count_list (trace (snd (init desktopHost constructor))) (Enter InitializeScroll) = 1)"
proof -
  let ?r = "\<lparr>success = True, successful = 2, total_count = 2, error = None\<rparr>"
  have h1: "RenderReturned ?r \<in> set (trace (snd (init desktopHost constructor)))"
    by (simp add: init_desktopHost)
  have h2: "success ?r" by simp
  have h3: "Enter InitializeAnimations \<in> set (trace (snd (init desktopHost constructor)))"
    "Enter InitializeWebGL \<in> set (trace (snd (init desktopHost constructor)))"
    by (simp_all add: init_desktopHost)
  from gates_drive_activation [of desktopHost ?r] h1 h2 h3 show ?thesis by auto
qed

text \<open>
  \<^bold>\<open>Claim C5.\<close> \<^verbatim>\<open>init\<close> never rejects, from any state. Whenever its \<^verbatim>\<open>try\<close>
  block throws, the exception is logged, reported under the phase tag \<open>initialization\<close>
  and the fallback panel is shown, in this order, and \<^verbatim>\<open>init\<close> is fulfilled. On a
  fresh \<^verbatim>\<open>App\<close> that report is the only one under the tag, the application stays
  uninitialized, and the exception comes from the core sequence: from \<^verbatim>\<open>getState\<close>,
  from \<^verbatim>\<open>getAllProducts\<close>, from \<^verbatim>\<open>renderAllProducts\<close>, or from a render result
  whose \<open>success\<close> is false. (The wait for the document has no statement that throws on
  a host that has a document.)
\<close>

theorem core_exception_handled:
  "(\<forall>e'. fst (init en w) \<noteq> Throw e')
   \<and> (init_try en w = (Throw e, w')
      \<longrightarrow> init en w = (Normal, w'\<lparr>innerHTML := FallbackHTML, trace := trace w' @
             [ConsoleError e, Report e ''initialization'', Enter ShowFallbackUI]\<rparr>))
   \<and> (init_try en constructor = (Throw e, w')
      \<longrightarrow> reported ''initialization'' (trace (snd (init en constructor))) = [e]
        \<and> \<not> initialized (snd (init en constructor))
        \<and> (rt_getState en = Inl e \<or> data_getAllProducts en = Inl e
           \<or> (\<exists>ps. data_getAllProducts en = Inr ps \<and> adapter_renderAllProducts en ps = Inl e)
           \<or> (\<exists>ps r. data_getAllProducts en = Inr ps \<and> adapter_renderAllProducts en ps = Inr r
                \<and> \<not> success r \<and> e = Error (errorMessage (error r)))))"
proof (intro conjI allI impI)
  fix e'
  show "fst (init en w) \<noteq> Throw e'"
    by (simp add: init_def try_catch_def init_catch_def does_def report_def showFallbackUI_def
        split: prod.splits completion.splits)
next
  assume "init_try en w = (Throw e, w')"
  then show "init en w = (Normal, w'\<lparr>innerHTML := FallbackHTML, trace := trace w' @
             [ConsoleError e, Report e ''initialization'', Enter ShowFallbackUI]\<rparr>)"
    by (simp add: init_def try_catch_def init_catch_def does_def report_def showFallbackUI_def
        emit_def)
next
  assume t: "init_try en constructor = (Throw e, w')"
  have "reported ''initialization'' (trace (snd (init en constructor))) = [e]
        \<and> \<not> initialized (snd (init en constructor))
        \<and> (rt_getState en = Inl e \<or> data_getAllProducts en = Inl e
           \<or> (\<exists>ps. data_getAllProducts en = Inr ps \<and> adapter_renderAllProducts en ps = Inl e)
           \<or> (\<exists>ps r. data_getAllProducts en = Inr ps \<and> adapter_renderAllProducts en ps = Inr r
                \<and> \<not> success r \<and> e = Error (errorMessage (error r))))"
  proof (cases en rule: init_cases)
    case pending
    with t show ?thesis by simp
  next
    case (failed e2 pre)
    with t have e: "e2 = e" by simp
    have "reported ''initialization'' pre = []"
      by (rule reported_none) (rule core_prefix_plain [OF failed(4)])
    with failed(3,5) e show ?thesis
      by (simp add: reported_append dom_events_plain constructor_def)
  next
    case (ready st ps rr evsA evsW)
    with t show ?thesis by simp
  qed
  then show "reported ''initialization'' (trace (snd (init en constructor))) = [e]"
    and "\<not> initialized (snd (init en constructor))"
    and "rt_getState en = Inl e \<or> data_getAllProducts en = Inl e
           \<or> (\<exists>ps. data_getAllProducts en = Inr ps \<and> adapter_renderAllProducts en ps = Inl e)
           \<or> (\<exists>ps r. data_getAllProducts en = Inr ps \<and> adapter_renderAllProducts en ps = Inr r
                \<and> \<not> success r \<and> e = Error (errorMessage (error r)))"
    by simp_all
qed

theorem core_exception_handled_witness:
  "init_try noRuntimeHost constructor
     = (Throw (Error ''matchMedia is not a function''),
        constructor\<lparr>trace := [ConsoleLog ''Lumina Headphones - Initializing...'',
                               Enter WaitForDOM]\<rparr>)
   \<and> init noRuntimeHost constructor
     = (Normal, constructor\<lparr>innerHTML := FallbackHTML,
          trace := [ConsoleLog ''Lumina Headphones - Initializing...'', Enter WaitForDOM,
                    ConsoleError (Error ''matchMedia is not a function''),
                    Report (Error ''matchMedia is not a function'') ''initialization'',
                    Enter ShowFallbackUI]\<rparr>)
   \<and> reported ''initialization'' (trace (snd (init noRuntimeHost constructor)))
       = [Error ''matchMedia is not a function'']
   \<and> \<not> initialized (snd (init noRuntimeHost constructor))
   \<and> rt_getState noRuntimeHost = Inl (Error ''matchMedia is not a function'')"
proof -
  have h: "init_try noRuntimeHost constructor
     = (Throw (Error ''matchMedia is not a function''),
        constructor\<lparr>trace := [ConsoleLog ''Lumina Headphones - Initializing...'',
                               Enter WaitForDOM]\<rparr>)"
    unfolding init_try_noRuntimeHost by (simp add: constructor_def)
  have g: "rt_getState noRuntimeHost = Inl (Error ''matchMedia is not a function'')"
    by (simp add: noRuntimeHost_def)
  from core_exception_handled [of noRuntimeHost constructor
         "Error ''matchMedia is not a function''"
         "constructor\<lparr>trace := [ConsoleLog ''Lumina Headphones - Initializing...'',
                               Enter WaitForDOM]\<rparr>"] h g
  show ?thesis by (simp add: constructor_def)
qed

text \<open>
  \<^bold>\<open>Claim C9.\<close> The \<open>initialized\<close> flag of a fresh \<^verbatim>\<open>App\<close> is false. After
  \<^verbatim>\<open>init\<close> it is true exactly when the \<^verbatim>\<open>try\<close> block ran to its end; then
  rendering had succeeded, scroll set-up was entered, the last effect is the closing
  console line and the body is untouched. Whenever the top-level \<^verbatim>\<open>catch\<close> fires,
  the fallback panel is shown and the flag is still false; and the fallback panel is
  shown in no other run.
\<close>

theorem initialized_only_when_ready:
  "initialized constructor = False
   \<and> (initialized (snd (init en constructor)) \<longleftrightarrow> fst (init_try en constructor) = Normal)
   \<and> (initialized (snd (init en constructor))
      \<longrightarrow> fst (init en constructor) = Normal
        \<and> (\<exists>r. RenderReturned r \<in> set (trace (snd (init en constructor))) \<and> success r)
        \<and> Enter InitializeScroll \<in> set (trace (snd (init en constructor)))
        \<and> last (trace (snd (init en constructor)))
            = ConsoleLog ''Application initialized successfully''
        \<and> innerHTML (snd (init en constructor)) = PageMarkup)
   \<and> (Enter ShowFallbackUI \<in> set (trace (snd (init en constructor)))
      \<longrightarrow> \<not> initialized (snd (init en constructor))
        \<and> (\<exists>e w'. init_try en constructor = (Throw e, w')))
   \<and> ((\<exists>e w'. init_try en constructor = (Throw e, w'))
      \<longrightarrow> Enter ShowFallbackUI \<in> set (trace (snd (init en constructor)))
        \<and> \<not> initialized (snd (init en constructor)))"
proof (cases en rule: init_cases)
  case pending
  then show ?thesis by (simp add: dom_events_plain constructor_def)
next
  case (failed e pre)
  then show ?thesis by (simp add: constructor_def)
next
  case (ready st ps rr evsA evsW)
  note nA = setup_not_core [OF ready(8)] and nW = setup_not_core [OF ready(11)]
  have r: "\<exists>r. RenderReturned r \<in> set (trace (snd (init en constructor))) \<and> success r"
    using ready(5,7) by (intro exI [of _ rr]) simp
  show ?thesis using r ready(6) unfolding ready(7)
    by (simp add: dom_events_plain nA nW constructor_def)
qed

theorem initialized_only_when_ready_witness:
  "initialized (snd (init desktopHost constructor))
   \<and> fst (init_try desktopHost constructor) = Normal
   \<and> Enter InitializeScroll \<in> set (trace (snd (init desktopHost constructor)))
   \<and> innerHTML (snd (init desktopHost constructor)) = PageMarkup
   \<and> Enter ShowFallbackUI \<in> set (trace (snd (init failedRenderHost constructor)))
   \<and> \<not> initialized (snd (init failedRenderHost constructor))
   \<and> (\<exists>e w'. init_try failedRenderHost constructor = (Throw e, w'))"
proof -
  have h1: "initialized (snd (init desktopHost constructor))"
    by (simp add: init_desktopHost)
  have h2: "Enter ShowFallbackUI \<in> set (trace (snd (init failedRenderHost constructor)))"
    by (simp add: init_failedRenderHost)
  from initialized_only_when_ready [of desktopHost]
       initialized_only_when_ready [of failedRenderHost] h1 h2
  show ?thesis by blast
qed

text \<open>
  \<^bold>\<open>Claim C10.\<close> Animation activation enters \<^verbatim>\<open>setupMouseInteractions\<close> only when
  the viewport is wider than 1024 and \<^verbatim>\<open>isAllowed('allowHeavy')\<close> returns true. It
  never starts the floating animation of the main image itself; the \<^verbatim>\<open>onComplete\<close>
  callback of the intro timeline starts it only when \<^verbatim>\<open>isAllowed('allowHeavy')\<close>
  returns true at that moment. When \<^verbatim>\<open>window.gsap\<close> is undefined, activation only
  writes a console warning: no library call, no listener, no report.
\<close>

theorem heavy_effects_gated:
  "(Enter SetupMouseInteractions \<in> set (effects (initializeAnimations en) w)
      \<longrightarrow> 1024 < win_innerWidth en \<and> rt_isAllowed en ''allowHeavy'' = Inr True)
   \<and> Gsap (To ''.main-img'') \<notin> set (effects (initializeAnimations en) w)
   \<and> (Gsap (To ''.main-img'') \<in> set (effects (introTL_onComplete en) w)
      \<longrightarrow> rt_isAllowed en ''allowHeavy'' = Inr True)
   \<and> (win_gsap en = Undefined
      \<longrightarrow> initializeAnimations en w = (Normal, w\<lparr>trace := trace w @
             [Enter InitializeAnimations,
              ConsoleWarn ''GSAP not available - animations disabled'']\<rparr>)
        \<and> reported ph (effects (initializeAnimations en) w) = [])"
proof (intro conjI impI)
  assume m: "Enter SetupMouseInteractions \<in> set (effects (initializeAnimations en) w)"
  have g: "1024 < win_innerWidth en \<and> rt_isAllowed en ''allowHeavy'' = Inr True"
  proof (rule ccontr)
    assume "\<not> (1024 < win_innerWidth en \<and> rt_isAllowed en ''allowHeavy'' = Inr True)"
    then have "list_all (\<lambda>ev. ev \<noteq> Enter SetupMouseInteractions) (effects (initializeAnimations en) w)"
      by (intro uniform_effects no_mouse_without_gate)
    with m show False by (auto simp: list_all_iff)
  qed
  from g show "1024 < win_innerWidth en" ..
  from g show "rt_isAllowed en ''allowHeavy'' = Inr True" ..
next
  have "list_all (\<lambda>ev. ev \<noteq> Gsap (To ''.main-img'')) (effects (initializeAnimations en) w)"
    by (intro uniform_effects no_float_in_activation)
  then show "Gsap (To ''.main-img'') \<notin> set (effects (initializeAnimations en) w)"
    by (auto simp: list_all_iff)
next
  assume "Gsap (To ''.main-img'') \<in> set (effects (introTL_onComplete en) w)"
  then show "rt_isAllowed en ''allowHeavy'' = Inr True"
    by (auto simp: effects_def introTL_onComplete_def call_def skip_def
        split: sum.splits if_splits)
next
  assume u: "win_gsap en = Undefined"
  then show i: "initializeAnimations en w = (Normal, w\<lparr>trace := trace w @
             [Enter InitializeAnimations,
              ConsoleWarn ''GSAP not available - animations disabled'']\<rparr>)"
    by (simp add: initializeAnimations_def animations_try_def isDefined_def call_def
        try_catch_def does_def emit_def)
  show "reported ph (effects (initializeAnimations en) w) = []"
    by (simp add: i effects_def)
qed

theorem heavy_effects_gated_witness:
  "Enter SetupMouseInteractions \<in> set (effects (initializeAnimations desktopHost) constructor)
   \<and> 1024 < win_innerWidth desktopHost
   \<and> rt_isAllowed desktopHost ''allowHeavy'' = Inr True
   \<and> Gsap (To ''.main-img'') \<in> set (effects (introTL_onComplete desktopHost) constructor)
   \<and> Gsap (To ''.main-img'') \<notin> set (effects (initializeAnimations desktopHost) constructor)
   \<and> win_gsap noGsapHost = Undefined
   \<and> initializeAnimations noGsapHost constructor
       = (Normal, constructor\<lparr>trace := trace constructor @
            [Enter InitializeAnimations,
             ConsoleWarn ''GSAP not available - animations disabled'']\<rparr>)
   \<and> reported ''animations'' (effects (initializeAnimations noGsapHost) constructor) = []"
proof -
  have h1: "Enter SetupMouseInteractions
      \<in> set (effects (initializeAnimations desktopHost) constructor)"
    by (simp add: app_defs desktopHost_def isAllowed_def gateTable_def loadRuntime_def
        strong_state)
  have h2: "Gsap (To ''.main-img'') \<in> set (effects (introTL_onComplete desktopHost) constructor)"
    by (simp add: app_defs desktopHost_def isAllowed_def gateTable_def loadRuntime_def
        strong_state)
  have h3: "win_gsap noGsapHost = Undefined" by (simp add: noGsapHost_def)
  from heavy_effects_gated [of desktopHost constructor "''animations''"]
       heavy_effects_gated [of noGsapHost constructor "''animations''"] h1 h2 h3
  show ?thesis by simp
qed

end
